theory Spec2Isabelle
  imports Main "HOL-Library.Word"
begin

unbundle bit_operations_syntax

section \<open>The Inscopix real-time stream reader (\<open>isx_stream.py\<close>)\<close>

text \<open>
  The class \<open>isx_scope\<close> derives the stream geometry from a downsample factor
  (\<open>isx_set_defaults\<close>), reads raw frames (\<open>get_frame\<close>) and decodes the frame counter and
  the recording flag from one header row (\<open>update_frame_stats\<close>).

  Conventions of the embedding:
  \<^item> Python integers are \<open>int\<close>; \<open>//\<close> is floor division, as \<open>div\<close> on \<open>int\<close>, and
    raises \<open>ZeroDivisionError\<close> on a zero divisor.
  \<^item> The raw frame is a two-dimensional \<open>uint8\<close> array, a list of rows of \<open>8 word\<close>; its
    \<open>uint16\<close> view pairs the bytes of each row in little-endian order (the native order of
    the hosts the stream runs on).
  \<^item> An element of the \<open>uint16\<close> view is a NumPy scalar. Under the scalar promotion of
    NumPy 1.x, which the module was written against, \<open>uint16 >> 4\<close> with a Python integer
    is computed in the default integer type \<open>int64\<close>. The counter expression stays below
    \<open>2 ^ 36\<close> (lemma \<open>decode_counter_range\<close>), so \<open>int64\<close> never overflows there and the
    values are modelled by \<open>int\<close>.
  \<^item> Every \<open>try ... except Exception\<close> of the source is a \<open>case\<close> on a result of type
    \<open>py_error + 'a\<close>. The \<open>print\<close> calls, the GStreamer pipeline strings and the capture
    object are left out; the storage file is the list of the frames written to it.
\<close>

subsection \<open>Python and NumPy primitives\<close>

datatype py_error = ZeroDivisionError | IndexError | ValueError

definition py_floordiv :: "int \<Rightarrow> int \<Rightarrow> py_error + int" where
  "py_floordiv a b = (if b = 0 then Inl ZeroDivisionError else Inr (a div b))"

text \<open>Sequencing: the first exception raised ends the computation.\<close>

definition py_bind :: "py_error + 'a \<Rightarrow> ('a \<Rightarrow> py_error + 'b) \<Rightarrow> py_error + 'b" where
  "py_bind m f = (case m of Inl e \<Rightarrow> Inl e | Inr x \<Rightarrow> f x)"

text \<open>Indexing with one integer: a negative index counts from the end.\<close>

definition np_getitem :: "'a list \<Rightarrow> int \<Rightarrow> py_error + 'a" where
  "np_getitem xs i =
     (if 0 \<le> i \<and> i < int (length xs) then Inr (xs ! nat i)
      else if i < 0 \<and> - int (length xs) \<le> i then Inr (xs ! nat (i + int (length xs)))
      else Inl IndexError)"

text \<open>The slice \<open>xs[lo:hi]\<close>: both bounds are clipped to the length, and it never raises.\<close>

definition py_slice_bound :: "nat \<Rightarrow> int \<Rightarrow> nat" where
  "py_slice_bound n i = (if i < 0 then nat (max 0 (i + int n)) else min (nat i) n)"

definition py_slice :: "'a list \<Rightarrow> int \<Rightarrow> int \<Rightarrow> 'a list" where
  "py_slice xs lo hi =
     (let a = py_slice_bound (length xs) lo; b = py_slice_bound (length xs) hi
      in take (b - a) (drop a xs))"

text \<open>\<open>raw.view(dtype=np.uint16)\<close>: the last axis must hold an even number of bytes.\<close>

fun pair_bytes :: "8 word list \<Rightarrow> 16 word list" where
  "pair_bytes (lo # hi # rest) = (push_bit 8 (ucast hi) OR ucast lo) # pair_bytes rest"
| "pair_bytes _ = []"

definition view_uint16 :: "8 word list list \<Rightarrow> py_error + 16 word list list" where
  "view_uint16 raw =
     (if list_ex (\<lambda>row. odd (length row)) raw then Inl ValueError
      else Inr (map pair_bytes raw))"

subsection \<open>The object state\<close>

record isx_defaults =
  stream_width :: int
  stream_height :: int
  frame_width :: int
  frame_height :: int
  frame_size_in_bytes :: int
  isx_header_offset :: int
  isx_footer_offset :: int
  header_row_with_meta :: int
  frame_counter_offset :: int
  frame_record_flag_offset :: int
  frame_record_flag_value :: int
  prev_frame_seq_id :: int

record frame_stats =
  missing_frames_range :: "int list"
  seq_id :: int
  isxd_record :: bool

record isx_scope = isx_defaults +
  sync_with_recording :: bool
  file_storage :: bool
  file_written :: "16 word list list list"
  frame_statistics :: frame_stats

subsection \<open>\<open>isx_set_defaults\<close>\<close>

definition isx_set_defaults :: "int \<Rightarrow> py_error + isx_defaults" where
  "isx_set_defaults ds_factor =
     (let isx_default_width = 1280;
          isx_default_height = 800;
          isx_meta_header_length = 2;
          isx_meta_footer_length = 2;
          isx_meta_fc_offset = 1258;
          isx_meta_ad_flag_offset = 1257;
          size16 = 2;
          size32 = 4;
          isx_meta_header_bytes = isx_meta_header_length * isx_default_width * size16;
          isx_meta_footer_bytes = isx_meta_footer_length * isx_default_width * size16;
          isx_meta_total_bytes = isx_meta_header_bytes + isx_meta_footer_bytes
      in py_bind (py_floordiv isx_default_width ds_factor) (\<lambda>sw.
         py_bind (py_floordiv isx_default_height ds_factor) (\<lambda>sh.
         py_bind (py_floordiv isx_meta_total_bytes sw) (\<lambda>lc16.
         py_bind (py_floordiv (lc16 * size16) size32) (\<lambda>lc32.
         py_bind (py_floordiv size32 size16) (\<lambda>ratio.
         py_bind (py_floordiv isx_meta_header_bytes (size16 * sw)) (\<lambda>ho.
         py_bind (py_floordiv isx_meta_fc_offset sw) (\<lambda>mrow.
         Inr \<lparr> stream_width = sw,
               stream_height = sh + lc32,
               frame_width = sw * ratio,
               frame_height = (sh + lc32) * ratio,
               frame_size_in_bytes = (sw * ratio) * ((sh + lc32) * ratio),
               isx_header_offset = ho,
               isx_footer_offset = sh + ho,
               header_row_with_meta = mrow,
               frame_counter_offset = isx_meta_fc_offset - (mrow * sw),
               frame_record_flag_offset = isx_meta_ad_flag_offset - (mrow * sw),
               frame_record_flag_value = 0xAD0,
               prev_frame_seq_id = 0 \<rparr>))))))))"

text \<open>
  \<open>__init__\<close>: the geometry, then the two flags, an empty storage file and the initial
  statistics record. An exception of \<open>isx_set_defaults\<close> leaves the constructor.
\<close>

definition isx_scope_init :: "int \<Rightarrow> bool \<Rightarrow> bool \<Rightarrow> py_error + isx_scope" where
  "isx_scope_init downsample_factor fs sync =
     (case isx_set_defaults downsample_factor of
        Inl e \<Rightarrow> Inl e
      | Inr g \<Rightarrow>
          Inr (isx_defaults.extend g
                 (isx_scope.fields sync fs []
                    \<lparr> missing_frames_range = [], seq_id = 0, isxd_record = False \<rparr>)))"

subsection \<open>\<open>update_frame_stats\<close>\<close>

text \<open>
  Lines 212 to 216: each sample is shifted right by four in \<open>int64\<close>, then shifted into
  its byte position, and the four terms are combined by bitwise or.
\<close>

definition decode_counter :: "16 word \<Rightarrow> 16 word \<Rightarrow> 16 word \<Rightarrow> 16 word \<Rightarrow> int" where
  "decode_counter s0 s1 s2 s3 =
     push_bit 0 (drop_bit 4 (uint s0)) OR push_bit 8 (drop_bit 4 (uint s1)) OR
     push_bit 16 (drop_bit 4 (uint s2)) OR push_bit 24 (drop_bit 4 (uint s3))"

text \<open>
  Lines 212 to 222, the part of the \<open>try\<close> block that can raise: the four counter samples
  and the flag sample are read in this order, before any field of the object is assigned.
\<close>

definition read_frame_fields :: "'a isx_scope_scheme \<Rightarrow> 16 word list \<Rightarrow> py_error + (int \<times> bool)" where
  "read_frame_fields self frame_header_row =
     py_bind (np_getitem frame_header_row (frame_counter_offset self)) (\<lambda>s0.
     py_bind (np_getitem frame_header_row (frame_counter_offset self + 1)) (\<lambda>s1.
     py_bind (np_getitem frame_header_row (frame_counter_offset self + 2)) (\<lambda>s2.
     py_bind (np_getitem frame_header_row (frame_counter_offset self + 3)) (\<lambda>s3.
     py_bind (np_getitem frame_header_row (frame_record_flag_offset self)) (\<lambda>frame_record_byte.
       Inr (decode_counter s0 s1 s2 s3,
            uint frame_record_byte = frame_record_flag_value self))))))"

text \<open>Lines 224 to 234: the new statistics record, the missing range, the remembered counter.\<close>

definition record_frame_stats :: "'a isx_scope_scheme \<Rightarrow> int \<Rightarrow> bool \<Rightarrow> bool \<times> 'a isx_scope_scheme" where
  "record_frame_stats self curr_frame_seq_id curr_frame_is_recording =
     (let stats = \<lparr> missing_frames_range = [], seq_id = curr_frame_seq_id,
                    isxd_record = curr_frame_is_recording \<rparr>;
          stats' = (if prev_frame_seq_id self \<noteq> 0
                       \<and> curr_frame_seq_id \<noteq> prev_frame_seq_id self + 1
                    then stats \<lparr> missing_frames_range :=
                                  [prev_frame_seq_id self + 1, curr_frame_seq_id - 1] \<rparr>
                    else stats)
      in (curr_frame_is_recording,
          self \<lparr> frame_statistics := stats', prev_frame_seq_id := curr_frame_seq_id \<rparr>))"

definition update_frame_stats :: "'a isx_scope_scheme \<Rightarrow> 16 word list \<Rightarrow> bool \<times> 'a isx_scope_scheme" where
  "update_frame_stats self frame_header_row =
     (case read_frame_fields self frame_header_row of
        Inl e \<Rightarrow> (False, self)
      | Inr (curr_frame_seq_id, curr_frame_is_recording) \<Rightarrow>
          record_frame_stats self curr_frame_seq_id curr_frame_is_recording)"

subsection \<open>\<open>get_frame\<close>\<close>

text \<open>
  The argument is what \<open>stream_capture.read()\<close> returned. The result is \<open>None\<close> for the
  source's \<open>(None, None)\<close>, and the statistics record with the stripped frame otherwise.
\<close>

definition get_frame ::
  "'a isx_scope_scheme \<Rightarrow> bool \<times> 8 word list list
     \<Rightarrow> (frame_stats \<times> 16 word list list) option \<times> 'a isx_scope_scheme" where
  "get_frame self rd =
     (case rd of (ret, raw) \<Rightarrow>
        if \<not> ret then (None, self)
        else
          (case view_uint16 raw of
             Inl e \<Rightarrow> (None, self)
           | Inr frame16 \<Rightarrow>
               (let frame = py_slice frame16 (isx_header_offset self) (isx_footer_offset self)
                in (case np_getitem frame16 (header_row_with_meta self) of
                      Inl e \<Rightarrow> (None, self)
                    | Inr frame_header_row \<Rightarrow>
                        (case update_frame_stats self frame_header_row of
                           (isxd_record_status, self1) \<Rightarrow>
                             if sync_with_recording self1 \<and> \<not> isxd_record_status
                             then (None, self1)
                             else (let self2 =
                                         (if file_storage self1
                                          then self1 \<lparr> file_written := file_written self1 @ [frame] \<rparr>
                                          else self1)
                                   in (Some (frame_statistics self2, frame), self2)))))))"

section \<open>Notions used to state the properties\<close>

text \<open>
  A downsample factor is valid when it is positive and divides both native dimensions.
\<close>

definition valid_factor :: "int \<Rightarrow> bool" where
  "valid_factor d \<longleftrightarrow> 0 < d \<and> d dvd 1280 \<and> d dvd 800"

text \<open>
  An object is configured for the factor \<open>d\<close> when its geometry fields are the ones
  \<open>isx_set_defaults d\<close> assigned. The remembered counter is the only field of
  \<open>isx_set_defaults\<close> that changes afterwards, so it is reset before the comparison.
\<close>

definition configured :: "'a isx_scope_scheme \<Rightarrow> int \<Rightarrow> bool" where
  "configured self d \<longleftrightarrow>
     isx_set_defaults d = Inr ((isx_defaults.truncate self) \<lparr> prev_frame_seq_id := 0 \<rparr>)"

text \<open>
  A raw frame has the shape the pipeline is configured for: \<open>frame_height\<close> rows of
  \<open>frame_width\<close> bytes.
\<close>

definition well_shaped :: "'a isx_scope_scheme \<Rightarrow> 8 word list list \<Rightarrow> bool" where
  "well_shaped self raw \<longleftrightarrow>
     int (length raw) = frame_height self \<and>
     list_all (\<lambda>row. int (length row) = frame_width self) raw"

text \<open>
  What \<open>get_frame\<close> reads in a well-shaped frame: the header row it hands to
  \<open>update_frame_stats\<close> (line 186), and the counter and the flag decoded from that row
  (lines 212 to 222).
\<close>

definition header_row_of :: "'a isx_scope_scheme \<Rightarrow> 8 word list list \<Rightarrow> 16 word list" where
  "header_row_of self raw = pair_bytes (raw ! nat (header_row_with_meta self))"

definition counter_of :: "'a isx_scope_scheme \<Rightarrow> 8 word list list \<Rightarrow> int" where
  "counter_of self raw =
     (let row = header_row_of self raw; co = frame_counter_offset self
      in decode_counter (row ! nat co) (row ! nat (co + 1)) (row ! nat (co + 2)) (row ! nat (co + 3)))"

definition recording_of :: "'a isx_scope_scheme \<Rightarrow> 8 word list list \<Rightarrow> bool" where
  "recording_of self raw \<longleftrightarrow>
     header_row_of self raw ! nat (frame_record_flag_offset self) = (0xAD0 :: 16 word)"

subsection \<open>A synthetic frame\<close>

text \<open>
  The encoder of the round-trip property; the module has none. Byte \<open>i\<close> of the counter
  is stored as the sample \<open>byte << 4\<close> at \<open>frame_counter_offset + i\<close> of the meta row,
  and the sample at \<open>frame_record_flag_offset\<close> is \<open>0xAD0\<close> for a recording frame and
  \<open>0\<close> otherwise. The bytes of a sample are laid out in the order \<open>pair_bytes\<close> reads.
\<close>

definition counter_sample :: "32 word \<Rightarrow> nat \<Rightarrow> 16 word" where
  "counter_sample counter i = push_bit 4 (ucast (ucast (drop_bit (8 * i) counter) :: 8 word))"

definition encode_meta_row ::
  "'a isx_scope_scheme \<Rightarrow> 16 word list \<Rightarrow> 32 word \<Rightarrow> bool \<Rightarrow> 16 word list" where
  "encode_meta_row self base counter flag =
     (let co = nat (frame_counter_offset self); fo = nat (frame_record_flag_offset self)
      in base [fo := (if flag then 0xAD0 else 0),
               co := counter_sample counter 0,
               co + 1 := counter_sample counter 1,
               co + 2 := counter_sample counter 2,
               co + 3 := counter_sample counter 3])"

definition bytes_of_row :: "16 word list \<Rightarrow> 8 word list" where
  "bytes_of_row row = concat (map (\<lambda>w. [ucast w, ucast (drop_bit 8 w)]) row)"

definition encode_frame ::
  "'a isx_scope_scheme \<Rightarrow> 16 word list list \<Rightarrow> 32 word \<Rightarrow> bool \<Rightarrow> 8 word list list" where
  "encode_frame self base16 counter flag =
     (let m = nat (header_row_with_meta self)
      in map bytes_of_row (base16 [m := encode_meta_row self (base16 ! m) counter flag]))"

subsection \<open>Concrete objects and frames\<close>

text \<open>The object of the example application: factor 2, storage and sync enabled.\<close>

definition scope_2 :: isx_scope where
  "scope_2 =
     \<lparr> stream_width = 640, stream_height = 408, frame_width = 1280, frame_height = 816,
       frame_size_in_bytes = 1044480, isx_header_offset = 4, isx_footer_offset = 404,
       header_row_with_meta = 1, frame_counter_offset = 618,
       frame_record_flag_offset = 617, frame_record_flag_value = 0xAD0,
       prev_frame_seq_id = 0,
       sync_with_recording = True, file_storage = True, file_written = [],
       frame_statistics = \<lparr> missing_frames_range = [], seq_id = 0, isxd_record = False \<rparr> \<rparr>"

text \<open>A full frame, black apart from the counter and the flag.\<close>

definition full_raw :: "32 word \<Rightarrow> bool \<Rightarrow> 8 word list list" where
  "full_raw counter flag = encode_frame scope_2 (replicate 816 (replicate 640 0)) counter flag"

text \<open>A buffer of two rows only: 2560 bytes instead of 1044480.\<close>

definition short_raw :: "8 word list list" where
  "short_raw = encode_frame scope_2 (replicate 2 (replicate 640 0)) 7 True"

section \<open>Facts about the primitives\<close>

lemma np_getitem_in:
  "0 \<le> i \<Longrightarrow> i < int (length xs) \<Longrightarrow> np_getitem xs i = Inr (xs ! nat i)"
  by (simp add: np_getitem_def)

lemma np_getitem_out:
  "0 \<le> i \<Longrightarrow> int (length xs) \<le> i \<Longrightarrow> np_getitem xs i = Inl IndexError"
  by (simp add: np_getitem_def)

lemma length_pair_bytes: "length (pair_bytes bs) = length bs div 2"
  by (induction bs rule: pair_bytes.induct) simp_all

section \<open>Geometry\<close>

lemma isx_set_defaults_2:
  "isx_set_defaults 2 =
     Inr \<lparr> stream_width = 640, stream_height = 408, frame_width = 1280, frame_height = 816,
           frame_size_in_bytes = 1044480, isx_header_offset = 4, isx_footer_offset = 404,
           header_row_with_meta = 1, frame_counter_offset = 618,
           frame_record_flag_offset = 617, frame_record_flag_value = 0xAD0,
           prev_frame_seq_id = 0 \<rparr>"
  by (simp add: isx_set_defaults_def py_floordiv_def py_bind_def)

text \<open>
  C1. For the downsample factor 2 the geometry is: stream 640 by 408, frame 1280 by 816,
  1044480 bytes per frame, header offset 4, footer offset 404, meta row 1, counter
  offset 618 and flag offset 617.
\<close>

theorem geometry_factor_2:
  "isx_set_defaults 2 =
     Inr \<lparr> stream_width = 640, stream_height = 408, frame_width = 1280, frame_height = 816,
           frame_size_in_bytes = 1044480, isx_header_offset = 4, isx_footer_offset = 404,
           header_row_with_meta = 1, frame_counter_offset = 618,
           frame_record_flag_offset = 617, frame_record_flag_value = 0xAD0,
           prev_frame_seq_id = 0 \<rparr>"
  by (simp add: isx_set_defaults_def py_floordiv_def py_bind_def)

subsection \<open>The valid factors\<close>

text \<open>The valid factors are the twelve positive divisors of 160, the gcd of 1280 and 800.\<close>

lemma divisors_160:
  "list_all (\<lambda>d. d dvd 160 \<longrightarrow> List.member [1, 2, 4, 5, 8, 10, 16, 20, 32, 40, 80, 160] d)
     [1..160::int]"
  by code_simp

lemma valid_factor_cases:
  assumes "valid_factor d"
  shows "d \<in> {1, 2, 4, 5, 8, 10, 16, 20, 32, 40, 80, 160}"
proof -
  from assms have pos: "0 < d" and a: "d dvd 1280" and b: "d dvd 800"
    by (simp_all add: valid_factor_def)
  from a b have "d dvd 1280 - 800" by (rule dvd_diff)
  then have c: "d dvd 480" by simp
  from b c have "d dvd 800 - 480" by (rule dvd_diff)
  then have e: "d dvd 320" by simp
  from c e have "d dvd 480 - 320" by (rule dvd_diff)
  then have f: "d dvd 160" by simp
  then have "d \<le> 160" by (rule zdvd_imp_le) simp
  with pos have "d \<in> set [1..160]" by simp
  with f divisors_160 have "List.member [1, 2, 4, 5, 8, 10, 16, 20, 32, 40, 80, 160] d"
    unfolding list_all_iff by blast
  then show ?thesis by simp
qed

lemma valid_geometry:
  assumes "valid_factor d"
  shows "\<exists>g. isx_set_defaults d = Inr g \<and>
           0 \<le> isx_header_offset g \<and> isx_header_offset g < stream_height g \<and>
           0 \<le> isx_footer_offset g \<and> isx_footer_offset g < stream_height g \<and>
           0 \<le> header_row_with_meta g \<and> header_row_with_meta g < stream_height g \<and>
           0 \<le> frame_counter_offset g \<and> frame_counter_offset g + 3 < stream_width g \<and>
           0 \<le> frame_record_flag_offset g \<and> frame_record_flag_offset g < stream_width g \<and>
           frame_size_in_bytes g = frame_width g * frame_height g \<and>
           frame_width g = 2 * stream_width g \<and> frame_height g = 2 * stream_height g \<and>
           frame_record_flag_value g = 0xAD0 \<and>
           frame_record_flag_offset g = frame_counter_offset g - 1"
  using valid_factor_cases [OF assms]
  by (elim insertE emptyE) (simp_all add: isx_set_defaults_def py_floordiv_def py_bind_def)

lemma configured_bounds:
  assumes "valid_factor d" "configured self d"
  shows "0 \<le> header_row_with_meta self \<and> header_row_with_meta self < frame_height self \<and>
         0 \<le> frame_counter_offset self \<and> frame_counter_offset self + 3 < stream_width self \<and>
         0 \<le> frame_record_flag_offset self \<and> frame_record_flag_offset self < stream_width self \<and>
         frame_record_flag_offset self = frame_counter_offset self - 1 \<and>
         frame_width self = 2 * stream_width self \<and>
         frame_record_flag_value self = 0xAD0"
proof -
  from valid_geometry [OF assms(1)] obtain g where g: "isx_set_defaults d = Inr g"
    and b: "0 \<le> header_row_with_meta g" "header_row_with_meta g < stream_height g"
           "0 \<le> frame_counter_offset g" "frame_counter_offset g + 3 < stream_width g"
           "0 \<le> frame_record_flag_offset g" "frame_record_flag_offset g < stream_width g"
           "frame_record_flag_offset g = frame_counter_offset g - 1"
           "frame_width g = 2 * stream_width g" "frame_height g = 2 * stream_height g"
           "frame_record_flag_value g = 0xAD0"
    by blast
  from assms(2) g have eq: "g = (isx_defaults.truncate self) \<lparr> prev_frame_seq_id := 0 \<rparr>"
    by (simp add: configured_def)
  have f: "header_row_with_meta g = header_row_with_meta self"
          "stream_height g = stream_height self" "stream_width g = stream_width self"
          "frame_counter_offset g = frame_counter_offset self"
          "frame_record_flag_offset g = frame_record_flag_offset self"
          "frame_width g = frame_width self" "frame_height g = frame_height self"
          "frame_record_flag_value g = frame_record_flag_value self"
    by (simp_all add: eq isx_defaults.truncate_def)
  from b show ?thesis unfolding f by simp
qed

lemma valid_factor_2: "valid_factor 2"
  by (simp add: valid_factor_def)

lemma configured_scope_2: "configured scope_2 2"
  by (simp add: configured_def isx_set_defaults_2 scope_2_def isx_defaults.truncate_def)

text \<open>
  C8. For every factor that divides 1280 and 800, the header offset, the footer offset and
  the meta row index lie in \<open>[0, stream_height)\<close>, the four counter columns and the flag
  column lie in \<open>[0, stream_width)\<close>, and the frame size in bytes is the frame width times
  the frame height.
\<close>

theorem geometry_invariant:
  assumes "valid_factor d"
  shows "\<exists>g. isx_set_defaults d = Inr g \<and>
           0 \<le> isx_header_offset g \<and> isx_header_offset g < stream_height g \<and>
           0 \<le> isx_footer_offset g \<and> isx_footer_offset g < stream_height g \<and>
           0 \<le> header_row_with_meta g \<and> header_row_with_meta g < stream_height g \<and>
           0 \<le> frame_counter_offset g \<and> frame_counter_offset g + 3 < stream_width g \<and>
           0 \<le> frame_record_flag_offset g \<and> frame_record_flag_offset g < stream_width g \<and>
           frame_size_in_bytes g = frame_width g * frame_height g"
  using valid_geometry [OF assms] by blast

theorem geometry_invariant_witness:
  "valid_factor 160 \<and>
   (\<exists>g. isx_set_defaults 160 = Inr g \<and>
           0 \<le> isx_header_offset g \<and> isx_header_offset g < stream_height g \<and>
           0 \<le> isx_footer_offset g \<and> isx_footer_offset g < stream_height g \<and>
           0 \<le> header_row_with_meta g \<and> header_row_with_meta g < stream_height g \<and>
           0 \<le> frame_counter_offset g \<and> frame_counter_offset g + 3 < stream_width g \<and>
           0 \<le> frame_record_flag_offset g \<and> frame_record_flag_offset g < stream_width g \<and>
           frame_size_in_bytes g = frame_width g * frame_height g)"
proof -
  have v: "valid_factor 160" by (simp add: valid_factor_def)
  from v geometry_invariant [OF v] show ?thesis by (rule conjI)
qed

subsection \<open>Factors that are not valid\<close>

lemma stream_width_zero: "(1280 div d = 0) = (d = 0 \<or> 1280 < d)" for d :: int
  by (auto simp add: zdiv_eq_0_iff)

lemma isx_set_defaults_cases:
  "isx_set_defaults d =
     (if d = 0 \<or> 1280 < d then Inl ZeroDivisionError
      else Inr \<lparr> stream_width = 1280 div d,
                 stream_height = 800 div d + (10240 div (1280 div d) * 2) div 4,
                 frame_width = 1280 div d * 2,
                 frame_height = (800 div d + (10240 div (1280 div d) * 2) div 4) * 2,
                 frame_size_in_bytes =
                   (1280 div d * 2) * ((800 div d + (10240 div (1280 div d) * 2) div 4) * 2),
                 isx_header_offset = 5120 div (2 * (1280 div d)),
                 isx_footer_offset = 800 div d + 5120 div (2 * (1280 div d)),
                 header_row_with_meta = 1258 div (1280 div d),
                 frame_counter_offset = 1258 - 1258 div (1280 div d) * (1280 div d),
                 frame_record_flag_offset = 1257 - 1258 div (1280 div d) * (1280 div d),
                 frame_record_flag_value = 0xAD0,
                 prev_frame_seq_id = 0 \<rparr>)"
proof (cases "d = 0 \<or> 1280 < d")
  case True
  then have "d = 0 \<or> 1280 div d = 0" by (simp add: stream_width_zero)
  then show ?thesis using True
    by (auto simp add: isx_set_defaults_def py_floordiv_def py_bind_def)
next
  case False
  then have "d \<noteq> 0" "1280 div d \<noteq> 0" by (simp_all add: stream_width_zero)
  then show ?thesis using False
    by (simp add: isx_set_defaults_def py_floordiv_def py_bind_def)
qed

text \<open>
  C5, as the code has it. \<open>isx_set_defaults\<close> validates nothing and has no \<open>InvalidFactor\<close>
  error. It fails only with \<open>ZeroDivisionError\<close>, exactly when the factor is 0 or greater
  than 1280 (then \<open>1280 // ds_factor\<close> is 0). For every other integer factor, so for every
  valid one but also for the factors that do not divide 1280 or 800, it returns a geometry
  computed by floor division, with \<open>stream_width = 1280 // ds_factor\<close>.
\<close>

theorem geometry_failure_cases:
  "(isx_set_defaults d = Inl ZeroDivisionError \<longleftrightarrow> d = 0 \<or> 1280 < d) \<and>
   (d \<noteq> 0 \<and> d \<le> 1280 \<longrightarrow>
      (\<exists>g. isx_set_defaults d = Inr g \<and> stream_width g = 1280 div d \<and> stream_width g \<noteq> 0)) \<and>
   (valid_factor d \<longrightarrow> (\<exists>g. isx_set_defaults d = Inr g))"
proof -
  have a: "isx_set_defaults d = Inl ZeroDivisionError \<longleftrightarrow> d = 0 \<or> 1280 < d"
    by (simp add: isx_set_defaults_cases)
  have b: "\<exists>g. isx_set_defaults d = Inr g \<and> stream_width g = 1280 div d \<and> stream_width g \<noteq> 0"
    if "d \<noteq> 0 \<and> d \<le> 1280"
    using that by (simp add: isx_set_defaults_cases stream_width_zero)
  have c: "\<exists>g. isx_set_defaults d = Inr g" if "valid_factor d"
    using valid_geometry [OF that] by blast
  from a b c show ?thesis by blast
qed

theorem geometry_failure_cases_witness:
  "((3::int) \<noteq> 0 \<and> (3::int) \<le> 1280) \<and>
   (\<exists>g. isx_set_defaults 3 = Inr g \<and> stream_width g = 1280 div 3 \<and> stream_width g \<noteq> 0) \<and>
   valid_factor 2 \<and> (\<exists>g. isx_set_defaults 2 = Inr g)"
proof -
  have h: "(3::int) \<noteq> 0 \<and> (3::int) \<le> 1280" by simp
  from geometry_failure_cases [of 3] h
  have a: "\<exists>g. isx_set_defaults 3 = Inr g \<and> stream_width g = 1280 div 3 \<and> stream_width g \<noteq> 0"
    by blast
  from geometry_failure_cases [of 2] valid_factor_2
  have b: "\<exists>g. isx_set_defaults 2 = Inr g" by blast
  from h a valid_factor_2 b show ?thesis by blast
qed

text \<open>
  The factor 3 divides neither 1280 nor 800, and \<open>isx_set_defaults\<close> returns a geometry
  for it all the same.
\<close>

theorem factor_3_accepted:
  "\<not> valid_factor 3 \<and>
   isx_set_defaults 3 =
     Inr \<lparr> stream_width = 426, stream_height = 278, frame_width = 852, frame_height = 556,
           frame_size_in_bytes = 473712, isx_header_offset = 6, isx_footer_offset = 272,
           header_row_with_meta = 2, frame_counter_offset = 406,
           frame_record_flag_offset = 405, frame_record_flag_value = 0xAD0,
           prev_frame_seq_id = 0 \<rparr>"
  by (simp add: valid_factor_def isx_set_defaults_def py_floordiv_def py_bind_def)

section \<open>Decoding the frame counter\<close>







subsection \<open>Reading the fields of a header row\<close>

lemma read_frame_fields_in:
  assumes "0 \<le> frame_counter_offset self" "frame_counter_offset self + 3 < int (length row)"
    and "0 \<le> frame_record_flag_offset self" "frame_record_flag_offset self < int (length row)"
  shows "read_frame_fields self row =
           Inr (decode_counter (row ! nat (frame_counter_offset self))
                  (row ! nat (frame_counter_offset self + 1))
                  (row ! nat (frame_counter_offset self + 2))
                  (row ! nat (frame_counter_offset self + 3)),
                uint (row ! nat (frame_record_flag_offset self)) = frame_record_flag_value self)"
  using assms by (simp add: read_frame_fields_def py_bind_def np_getitem_in)

lemma read_frame_fields_short:
  assumes "0 \<le> frame_counter_offset self" "int (length row) < frame_counter_offset self + 4"
  shows "read_frame_fields self row = Inl IndexError"
proof -
  have "np_getitem row (frame_counter_offset self + 3) = Inl IndexError"
    using assms by (intro np_getitem_out) simp_all
  then show ?thesis
    by (simp add: read_frame_fields_def py_bind_def split: sum.splits)
       (auto simp: np_getitem_def split: if_splits)
qed

lemma update_frame_stats_ok:
  assumes "read_frame_fields self row = Inr (c, r)"
  shows "update_frame_stats self row =
           (r, self \<lparr> frame_statistics :=
                        \<lparr> missing_frames_range =
                            (if prev_frame_seq_id self = 0 \<or> c = prev_frame_seq_id self + 1
                             then [] else [prev_frame_seq_id self + 1, c - 1]),
                          seq_id = c, isxd_record = r \<rparr>,
                      prev_frame_seq_id := c \<rparr>)"
  using assms by (simp add: update_frame_stats_def record_frame_stats_def)

lemma update_frame_stats_fail:
  assumes "read_frame_fields self row = Inl e"
  shows "update_frame_stats self row = (False, self)"
  using assms by (simp add: update_frame_stats_def)

subsection \<open>The synthetic meta row decodes to what was encoded\<close>

lemma sample_of_byte:
  "drop_bit 4 (uint (push_bit 4 (ucast (b :: 8 word)) :: 16 word)) = uint b"
  by (rule bit_eqI) (auto simp add: bit_simps dest: bit_imp_le_length)

lemma bytes_of_u32:
  fixes c :: "32 word"
  shows "push_bit 0 (uint (ucast c :: 8 word)) OR
         push_bit 8 (uint (ucast (drop_bit 8 c) :: 8 word)) OR
         push_bit 16 (uint (ucast (drop_bit 16 c) :: 8 word)) OR
         push_bit 24 (uint (ucast (drop_bit 24 c) :: 8 word)) = uint c"
proof (rule bit_eqI)
  fix n :: nat
  consider "n < 8" | "8 \<le> n" "n < 16" | "16 \<le> n" "n < 24" | "24 \<le> n" by linarith
  then show "bit (push_bit 0 (uint (ucast c :: 8 word)) OR
                  push_bit 8 (uint (ucast (drop_bit 8 c) :: 8 word)) OR
                  push_bit 16 (uint (ucast (drop_bit 16 c) :: 8 word)) OR
                  push_bit 24 (uint (ucast (drop_bit 24 c) :: 8 word))) n = bit (uint c) n"
    by cases (auto simp add: bit_simps dest: bit_imp_le_length)
qed

lemma decode_counter_samples:
  "decode_counter (counter_sample c 0) (counter_sample c 1) (counter_sample c 2)
     (counter_sample c 3) = uint c"
  unfolding decode_counter_def counter_sample_def sample_of_byte
  using bytes_of_u32 [of c] by simp

lemma length_encode_meta_row: "length (encode_meta_row self base c flag) = length base"
  by (simp add: encode_meta_row_def Let_def)

lemma read_encode_meta_row:
  assumes co: "0 \<le> frame_counter_offset self"
      "frame_counter_offset self + 3 < int (length base)"
    and fo: "frame_record_flag_offset self = frame_counter_offset self - 1"
      "0 \<le> frame_record_flag_offset self"
    and fv: "frame_record_flag_value self = 0xAD0"
  shows "read_frame_fields self (encode_meta_row self base c flag) = Inr (uint c, flag)"
proof -
  let ?row = "encode_meta_row self base c flag"
  obtain k where k: "frame_counter_offset self = int (Suc k)"
    using co(1) fo
    by (metis add.commute add_diff_cancel_left' nat_0_le of_nat_Suc diff_add_cancel)
  have len: "k + 4 < length base" using co(2) k by simp
  have s: "?row ! nat (frame_counter_offset self) = counter_sample c 0"
          "?row ! nat (frame_counter_offset self + 1) = counter_sample c 1"
          "?row ! nat (frame_counter_offset self + 2) = counter_sample c 2"
          "?row ! nat (frame_counter_offset self + 3) = counter_sample c 3"
          "?row ! nat (frame_record_flag_offset self) = (if flag then 0xAD0 else 0)"
    using len
    by (simp_all add: encode_meta_row_def Let_def fo(1) k nat_add_distrib nth_list_update)
  have "read_frame_fields self ?row =
          Inr (decode_counter (?row ! nat (frame_counter_offset self))
                 (?row ! nat (frame_counter_offset self + 1))
                 (?row ! nat (frame_counter_offset self + 2))
                 (?row ! nat (frame_counter_offset self + 3)),
               uint (?row ! nat (frame_record_flag_offset self)) = frame_record_flag_value self)"
    using co fo by (intro read_frame_fields_in) (simp_all add: length_encode_meta_row)
  also have "\<dots> = Inr (uint c, flag)"
    unfolding s decode_counter_samples fv by simp
  finally show ?thesis .
qed

lemma read_scope_2_row:
  "read_frame_fields (scope_2 \<lparr> prev_frame_seq_id := p \<rparr>)
     (encode_meta_row (scope_2 \<lparr> prev_frame_seq_id := p \<rparr>) (replicate 640 0) c flag)
     = Inr (uint c, flag)"
  by (rule read_encode_meta_row) (simp_all add: scope_2_def)



section \<open>The sequence tracker\<close>

lemma isx_set_defaults_prev:
  assumes "isx_set_defaults d = Inr g"
  shows "prev_frame_seq_id g = 0"
  using assms by (auto simp add: isx_set_defaults_cases split: if_splits)

lemma isx_scope_init_prev:
  assumes "isx_scope_init d fs sync = Inr s"
  shows "prev_frame_seq_id s = 0"
  using assms isx_set_defaults_prev
  by (auto simp add: isx_scope_init_def isx_defaults.defs isx_scope.defs split: sum.splits)

lemma isx_scope_init_2: "isx_scope_init 2 True True = Inr scope_2"
  by (simp add: isx_scope_init_def isx_set_defaults_2 scope_2_def isx_defaults.defs
      isx_scope.defs)

text \<open>
  C3. A new object remembers the counter 0. For every header row whose fields are read
  to the counter \<open>c\<close>: the missing range is empty if the remembered counter is 0 or
  \<open>c\<close> is its successor, and is \<open>[prev + 1, c - 1]\<close> otherwise; in both cases the
  remembered counter becomes \<open>c\<close>. So the first frame after construction never reports a
  missing range.
\<close>

theorem sequence_tracker_policy:
  assumes "read_frame_fields self row = Inr (c, r)"
  shows "(\<forall>d fs sync s. isx_scope_init d fs sync = Inr s \<longrightarrow> prev_frame_seq_id s = 0) \<and>
         prev_frame_seq_id (snd (update_frame_stats self row)) = c \<and>
         seq_id (frame_statistics (snd (update_frame_stats self row))) = c \<and>
         missing_frames_range (frame_statistics (snd (update_frame_stats self row))) =
           (if prev_frame_seq_id self = 0 \<or> c = prev_frame_seq_id self + 1 then []
            else [prev_frame_seq_id self + 1, c - 1])"
  using isx_scope_init_prev by (auto simp add: update_frame_stats_ok [OF assms])

text \<open>The counter 103 after 100: the frames 101 and 102 are reported missing.\<close>

theorem sequence_tracker_policy_witness:
  "read_frame_fields (scope_2 \<lparr> prev_frame_seq_id := 100 \<rparr>)
     (encode_meta_row (scope_2 \<lparr> prev_frame_seq_id := 100 \<rparr>) (replicate 640 0) 103 True)
     = Inr (103, True) \<and>
   isx_scope_init 2 True True = Inr scope_2 \<and> prev_frame_seq_id scope_2 = 0 \<and>
   prev_frame_seq_id (snd (update_frame_stats (scope_2 \<lparr> prev_frame_seq_id := 100 \<rparr>)
     (encode_meta_row (scope_2 \<lparr> prev_frame_seq_id := 100 \<rparr>) (replicate 640 0) 103 True)))
     = 103 \<and>
   missing_frames_range (frame_statistics
     (snd (update_frame_stats (scope_2 \<lparr> prev_frame_seq_id := 100 \<rparr>)
       (encode_meta_row (scope_2 \<lparr> prev_frame_seq_id := 100 \<rparr>) (replicate 640 0) 103 True))))
     = [101, 102]"
proof -
  let ?s = "scope_2 \<lparr> prev_frame_seq_id := 100 \<rparr>"
  let ?row = "encode_meta_row ?s (replicate 640 0) 103 True"
  have h: "read_frame_fields ?s ?row = Inr (103, True)"
    using read_scope_2_row [of 100 103 True] by simp
  note t = sequence_tracker_policy [OF h]
  from t isx_scope_init_2 have "prev_frame_seq_id scope_2 = 0" by blast
  moreover from t have "prev_frame_seq_id (snd (update_frame_stats ?s ?row)) = 103" by blast
  moreover from t
  have "missing_frames_range (frame_statistics (snd (update_frame_stats ?s ?row))) = [101, 102]"
    by simp
  ultimately show ?thesis using h isx_scope_init_2 by blast
qed

text \<open>
  C9. If reading the counter or the flag from the header row raises, for example when
  the row is shorter than \<open>frame_counter_offset + 4\<close>, \<open>update_frame_stats\<close> returns
  \<open>False\<close> and leaves the object as it was: the remembered counter and the statistics
  record are unchanged.
\<close>

theorem update_frame_stats_exception:
  "(read_frame_fields self row = Inl e \<longrightarrow> update_frame_stats self row = (False, self)) \<and>
   (0 \<le> frame_counter_offset self \<and> int (length row) < frame_counter_offset self + 4 \<longrightarrow>
      read_frame_fields self row = Inl IndexError \<and>
      update_frame_stats self row = (False, self))"
  using update_frame_stats_fail read_frame_fields_short by blast

theorem update_frame_stats_exception_witness:
  "read_frame_fields scope_2 (replicate 620 0) = Inl IndexError \<and>
   0 \<le> frame_counter_offset scope_2 \<and>
   int (length (replicate 620 (0 :: 16 word))) < frame_counter_offset scope_2 + 4 \<and>
   update_frame_stats scope_2 (replicate 620 0) = (False, scope_2)"
proof -
  have h: "0 \<le> frame_counter_offset scope_2 \<and>
           int (length (replicate 620 (0 :: 16 word))) < frame_counter_offset scope_2 + 4"
    by (simp add: scope_2_def)
  from update_frame_stats_exception [of scope_2 "replicate 620 0" IndexError] h
  show ?thesis by blast
qed

section \<open>Reading a frame\<close>

lemma pair_of_sample:
  "push_bit 8 (ucast (ucast (drop_bit 8 w) :: 8 word)) OR ucast (ucast w :: 8 word) = (w :: 16 word)"
proof (rule bit_word_eqI)
  fix n :: nat
  assume "n < LENGTH(16)"
  consider "n < 8" | "8 \<le> n" by linarith
  then show "bit (push_bit 8 (ucast (ucast (drop_bit 8 w) :: 8 word)) OR ucast (ucast w :: 8 word) :: 16 word) n = bit w n"
    by cases (auto simp add: bit_simps dest: bit_imp_le_length)
qed

lemma pair_bytes_bytes_of_row: "pair_bytes (bytes_of_row row) = row"
  by (induction row) (simp_all add: bytes_of_row_def pair_of_sample)

lemma length_bytes_of_row: "length (bytes_of_row row) = 2 * length row"
  by (induction row) (simp_all add: bytes_of_row_def)

lemma view_uint16_bytes: "view_uint16 (map bytes_of_row frame16) = Inr frame16"
proof -
  have "\<not> list_ex (\<lambda>row. odd (length row)) (map bytes_of_row frame16)"
    by (simp add: list_ex_iff length_bytes_of_row)
  moreover have "map pair_bytes (map bytes_of_row frame16) = frame16"
    by (simp add: pair_bytes_bytes_of_row comp_def)
  ultimately show ?thesis by (simp add: view_uint16_def)
qed

lemma get_frame_decoded:
  assumes "view_uint16 raw = Inr frame16"
    and "np_getitem frame16 (header_row_with_meta self) = Inr row"
    and "read_frame_fields self row = Inr (c, r)"
  shows "get_frame self (True, raw) =
          (let stats = \<lparr> missing_frames_range =
                            (if prev_frame_seq_id self = 0 \<or> c = prev_frame_seq_id self + 1 then []
                             else [prev_frame_seq_id self + 1, c - 1]),
                          seq_id = c, isxd_record = r \<rparr>;
               self1 = self \<lparr> frame_statistics := stats, prev_frame_seq_id := c \<rparr>;
               frame = py_slice frame16 (isx_header_offset self) (isx_footer_offset self)
           in if sync_with_recording self \<and> \<not> r then (None, self1)
              else (Some (stats, frame),
                    if file_storage self then self1 \<lparr> file_written := file_written self @ [frame] \<rparr>
                    else self1))"
  using assms by (simp add: get_frame_def update_frame_stats_ok Let_def)

lemma well_shaped_reads:
  assumes v: "valid_factor d" and c: "configured self d" and w: "well_shaped self raw"
  shows "view_uint16 raw = Inr (map pair_bytes raw)"
    and "np_getitem (map pair_bytes raw) (header_row_with_meta self) = Inr (header_row_of self raw)"
    and "read_frame_fields self (header_row_of self raw) =
           Inr (counter_of self raw, recording_of self raw)"
proof -
  note b = configured_bounds [OF v c]
  from w have len: "int (length raw) = frame_height self"
    and rows: "\<And>row. row \<in> set raw \<Longrightarrow> int (length row) = 2 * stream_width self"
    using b by (simp_all add: well_shaped_def list_all_iff)
  have "\<not> list_ex (\<lambda>row. odd (length row)) raw"
  proof
    assume "list_ex (\<lambda>row. odd (length row)) raw"
    then obtain row where "row \<in> set raw" "odd (length row)" by (auto simp: list_ex_iff)
    with rows [of row] show False by presburger
  qed
  then show "view_uint16 raw = Inr (map pair_bytes raw)" by (simp add: view_uint16_def)
  have m: "nat (header_row_with_meta self) < length raw" using b len by linarith
  show "np_getitem (map pair_bytes raw) (header_row_with_meta self) = Inr (header_row_of self raw)"
    using b m len by (simp add: np_getitem_def header_row_of_def)
  have "int (length (raw ! nat (header_row_with_meta self))) = 2 * stream_width self"
    using m by (intro rows) simp
  then have l: "int (length (header_row_of self raw)) = stream_width self"
    by (simp add: header_row_of_def length_pair_bytes)
  have fl: "(uint (header_row_of self raw ! nat (frame_record_flag_offset self)) = frame_record_flag_value self)
              = recording_of self raw"
    using b by (simp add: recording_of_def word_uint_eq_iff)
  show "read_frame_fields self (header_row_of self raw) =
           Inr (counter_of self raw, recording_of self raw)"
    using read_frame_fields_in [of self "header_row_of self raw"] b l fl
    by (simp add: counter_of_def Let_def)
qed

lemma get_frame_well_shaped:
  assumes v: "valid_factor d" and c: "configured self d" and w: "well_shaped self raw"
  shows "get_frame self (True, raw) =
          (let stats = \<lparr> missing_frames_range =
                            (if prev_frame_seq_id self = 0 \<or> counter_of self raw = prev_frame_seq_id self + 1 then []
                             else [prev_frame_seq_id self + 1, counter_of self raw - 1]),
                          seq_id = counter_of self raw, isxd_record = recording_of self raw \<rparr>;
               self1 = self \<lparr> frame_statistics := stats, prev_frame_seq_id := counter_of self raw \<rparr>;
               frame = py_slice (map pair_bytes raw) (isx_header_offset self) (isx_footer_offset self)
           in if sync_with_recording self \<and> \<not> recording_of self raw then (None, self1)
              else (Some (stats, frame),
                    if file_storage self then self1 \<lparr> file_written := file_written self @ [frame] \<rparr>
                    else self1))"
  by (rule get_frame_decoded [OF well_shaped_reads [OF v c w]])

subsection \<open>The synthetic frame\<close>

lemma view_encode_frame:
  "view_uint16 (encode_frame self base16 c flag) =
     Inr (base16 [nat (header_row_with_meta self) :=
            encode_meta_row self (base16 ! nat (header_row_with_meta self)) c flag])"
  by (simp add: encode_frame_def Let_def view_uint16_bytes)

lemma header_row_of_encode_frame:
  assumes "0 \<le> header_row_with_meta self" "header_row_with_meta self < int (length base16)"
  shows "header_row_of self (encode_frame self base16 c flag) =
           encode_meta_row self (base16 ! nat (header_row_with_meta self)) c flag"
  using assms by (simp add: header_row_of_def encode_frame_def Let_def pair_bytes_bytes_of_row)

lemma well_shaped_encode_frame:
  assumes "frame_width self = 2 * stream_width self"
    and "int (length base16) = frame_height self"
    and "list_all (\<lambda>row. int (length row) = stream_width self) base16"
  shows "well_shaped self (encode_frame self base16 c flag)"
proof -
  let ?m = "nat (header_row_with_meta self)"
  let ?f = "base16 [?m := encode_meta_row self (base16 ! ?m) c flag]"
  have "int (length row) = stream_width self" if "row \<in> set ?f" for row
  proof (cases "?m < length base16")
    case True
    then have "int (length (base16 ! ?m)) = stream_width self"
      using assms(3) by (simp add: list_all_iff)
    moreover from that have "row \<in> insert (encode_meta_row self (base16 ! ?m) c flag) (set base16)"
      using set_update_subset_insert by fast
    ultimately show ?thesis
      using assms(3) by (auto simp add: list_all_iff length_encode_meta_row)
  next
    case False
    then have "?f = base16" by (intro list_update_beyond) simp
    with that have "row \<in> set base16" by simp
    then show ?thesis using assms(3) by (simp add: list_all_iff)
  qed
  then show ?thesis
    using assms(1,2) by (simp add: well_shaped_def encode_frame_def Let_def list_all_iff length_bytes_of_row)
qed

lemma observe_encode_frame:
  assumes v: "valid_factor d" and c: "configured self d"
    and l: "int (length base16) = frame_height self"
    and r: "list_all (\<lambda>row. int (length row) = stream_width self) base16"
  shows "well_shaped self (encode_frame self base16 counter flag)"
    and "counter_of self (encode_frame self base16 counter flag) = uint counter"
    and "recording_of self (encode_frame self base16 counter flag) = flag"
proof -
  note b = configured_bounds [OF v c]
  let ?m = "nat (header_row_with_meta self)"
  show w: "well_shaped self (encode_frame self base16 counter flag)"
    using b l r by (intro well_shaped_encode_frame) simp_all
  have m: "?m < length base16" using b l by linarith
  then have "int (length (base16 ! ?m)) = stream_width self"
    using r by (simp add: list_all_iff)
  then have "read_frame_fields self (encode_meta_row self (base16 ! ?m) counter flag)
               = Inr (uint counter, flag)"
    using b by (intro read_encode_meta_row) simp_all
  moreover have "header_row_of self (encode_frame self base16 counter flag)
                   = encode_meta_row self (base16 ! ?m) counter flag"
    using b l by (intro header_row_of_encode_frame) simp_all
  ultimately have "Inr (counter_of self (encode_frame self base16 counter flag),
                        recording_of self (encode_frame self base16 counter flag))
                   = (Inr (uint counter, flag) :: py_error + int \<times> bool)"
    using well_shaped_reads(3) [OF v c w] by simp
  then show "counter_of self (encode_frame self base16 counter flag) = uint counter"
    and "recording_of self (encode_frame self base16 counter flag) = flag"
    by simp_all
qed

lemma full_raw_facts:
  "well_shaped scope_2 (full_raw counter flag)"
  "counter_of scope_2 (full_raw counter flag) = uint counter"
  "recording_of scope_2 (full_raw counter flag) = flag"
  unfolding full_raw_def
  by (rule observe_encode_frame [OF valid_factor_2 configured_scope_2];
      simp add: scope_2_def list_all_iff)+



subsection \<open>Configured objects\<close>

text \<open>
  The constructor returns an object configured for its factor, and \<open>get_frame\<close> keeps it
  configured: the hypothesis \<open>configured self d\<close> of the properties below holds in every
  state an object goes through.
\<close>

lemma configured_init:
  assumes "isx_scope_init d fs sync = Inr s"
  shows "configured s d"
  using assms isx_set_defaults_prev [of d]
  by (auto simp add: isx_scope_init_def configured_def isx_defaults.defs isx_scope.defs
      split: sum.splits)

lemma configured_update_frame_stats:
  assumes "configured self d"
  shows "configured (snd (update_frame_stats self row)) d"
  using assms
  by (auto simp add: update_frame_stats_def record_frame_stats_def configured_def
      isx_defaults.truncate_def Let_def split: sum.splits)

lemma configured_get_frame:
  assumes "configured self d"
  shows "configured (snd (get_frame self rd)) d"
proof (cases rd)
  case (Pair ret raw)
  have u: "configured s1 d" if "update_frame_stats self row = (x, s1)" for row x s1
    using configured_update_frame_stats [OF assms, of row] that by simp
  have w: "configured (s \<lparr> file_written := f \<rparr>) d" if "configured s d" for s :: "'a isx_scope_scheme" and f
    using that by (simp add: configured_def isx_defaults.truncate_def)
  show ?thesis
    using assms u w
    by (auto simp add: Pair get_frame_def Let_def split: sum.splits prod.splits)
qed

section \<open>Delivery of frames\<close>

text \<open>
  C7. For a frame of the configured shape that was read successfully: with
  \<open>sync_with_recording\<close> off it is delivered whatever its recording flag; with
  \<open>sync_with_recording\<close> on it is delivered if and only if the sample at
  \<open>frame_record_flag_offset\<close> of the meta row is \<open>0xAD0\<close>.
\<close>

theorem sync_gating:
  assumes "valid_factor d" "configured self d" "well_shaped self raw"
  shows "(\<not> sync_with_recording self \<longrightarrow> fst (get_frame self (True, raw)) \<noteq> None) \<and>
         (sync_with_recording self \<longrightarrow>
            (fst (get_frame self (True, raw)) \<noteq> None \<longleftrightarrow> recording_of self raw))"
  unfolding get_frame_well_shaped [OF assms] by (simp add: Let_def)

lemma configured_scope_2_nosync: "configured (scope_2 \<lparr> sync_with_recording := False \<rparr>) 2"
  by (simp add: configured_def isx_set_defaults_2 scope_2_def isx_defaults.truncate_def)

theorem sync_gating_witness:
  "valid_factor 2 \<and> configured scope_2 2 \<and> well_shaped scope_2 (full_raw 7 False) \<and>
   sync_with_recording scope_2 \<and> \<not> recording_of scope_2 (full_raw 7 False) \<and>
   fst (get_frame scope_2 (True, full_raw 7 False)) = None \<and>
   configured (scope_2 \<lparr> sync_with_recording := False \<rparr>) 2 \<and>
   well_shaped (scope_2 \<lparr> sync_with_recording := False \<rparr>) (full_raw 7 False) \<and>
   \<not> sync_with_recording (scope_2 \<lparr> sync_with_recording := False \<rparr>) \<and>
   fst (get_frame (scope_2 \<lparr> sync_with_recording := False \<rparr>) (True, full_raw 7 False)) \<noteq> None"
proof -
  have s: "sync_with_recording scope_2" by (simp add: scope_2_def)
  have w: "well_shaped (scope_2 \<lparr> sync_with_recording := False \<rparr>) (full_raw 7 False)"
    using full_raw_facts(1) [of 7 False] by (simp add: well_shaped_def)
  have n: "\<not> sync_with_recording (scope_2 \<lparr> sync_with_recording := False \<rparr>)" by simp
  have r: "\<not> recording_of scope_2 (full_raw 7 False)" by (simp add: full_raw_facts)
  from sync_gating [OF valid_factor_2 configured_scope_2 full_raw_facts(1) [of 7 False]] s r
  have a: "fst (get_frame scope_2 (True, full_raw 7 False)) = None"
    by blast
  from sync_gating [OF valid_factor_2 configured_scope_2_nosync w] n
  have b: "fst (get_frame (scope_2 \<lparr> sync_with_recording := False \<rparr>) (True, full_raw 7 False)) \<noteq> None"
    by blast
  show ?thesis
    using valid_factor_2 configured_scope_2 full_raw_facts(1) [of 7 False] s a
      configured_scope_2_nosync w n b r
    by blast
qed

text \<open>
  C10. A frame suppressed by the sync gate (sync on, recording flag off) is not written to
  the storage file, but its counter is remembered: \<open>get_frame\<close> returns \<open>None\<close>, the
  file is unchanged and \<open>prev_frame_seq_id\<close> is the counter of the suppressed frame.
  The missing range of a frame delivered next is therefore computed from the suppressed
  frame's counter, not from the last delivered one.
\<close>

theorem suppressed_frame_tracked:
  assumes "valid_factor d" "configured self d"
    and "well_shaped self raw" "sync_with_recording self" "\<not> recording_of self raw"
    and "well_shaped self raw2" "recording_of self raw2"
  shows "fst (get_frame self (True, raw)) = None \<and>
         prev_frame_seq_id (snd (get_frame self (True, raw))) = counter_of self raw \<and>
         file_written (snd (get_frame self (True, raw))) = file_written self \<and>
         (\<exists>stats frame self2.
            get_frame (snd (get_frame self (True, raw))) (True, raw2) = (Some (stats, frame), self2) \<and>
            seq_id stats = counter_of self raw2 \<and>
            missing_frames_range stats =
              (if counter_of self raw = 0 \<or> counter_of self raw2 = counter_of self raw + 1 then []
               else [counter_of self raw + 1, counter_of self raw2 - 1]))"
proof -
  define st where "st =
     \<lparr> missing_frames_range =
         (if prev_frame_seq_id self = 0 \<or> counter_of self raw = prev_frame_seq_id self + 1
          then [] else [prev_frame_seq_id self + 1, counter_of self raw - 1]),
       seq_id = counter_of self raw, isxd_record = recording_of self raw \<rparr>"
  define s1 where "s1 = self \<lparr> frame_statistics := st, prev_frame_seq_id := counter_of self raw \<rparr>"
  have g: "get_frame self (True, raw) = (None, s1)"
    unfolding get_frame_well_shaped [OF assms(1,2,3)] s1_def st_def
    using assms(4,5) by (simp add: Let_def)
  have c1: "configured s1 d"
    using assms(2) by (simp add: s1_def configured_def isx_defaults.truncate_def)
  have w2: "well_shaped s1 raw2"
    using assms(6) by (simp add: s1_def well_shaped_def)
  have o: "counter_of s1 raw2 = counter_of self raw2" "recording_of s1 raw2"
    using assms(7) by (simp_all add: s1_def counter_of_def recording_of_def header_row_of_def)
  have p: "prev_frame_seq_id s1 = counter_of self raw" "file_written s1 = file_written self"
    by (simp_all add: s1_def)
  have "\<exists>stats frame self2.
            get_frame s1 (True, raw2) = (Some (stats, frame), self2) \<and>
            seq_id stats = counter_of self raw2 \<and>
            missing_frames_range stats =
              (if counter_of self raw = 0 \<or> counter_of self raw2 = counter_of self raw + 1 then []
               else [counter_of self raw + 1, counter_of self raw2 - 1])"
    using o p by (simp add: get_frame_well_shaped [OF assms(1) c1 w2] Let_def)
  then show ?thesis unfolding g using p by simp
qed

text \<open>Frame 5 is suppressed, frame 9 is delivered next: the missing range is 6 to 8.\<close>

theorem suppressed_frame_tracked_witness:
  "valid_factor 2 \<and> configured scope_2 2 \<and>
   well_shaped scope_2 (full_raw 5 False) \<and> sync_with_recording scope_2 \<and>
   \<not> recording_of scope_2 (full_raw 5 False) \<and>
   well_shaped scope_2 (full_raw 9 True) \<and> recording_of scope_2 (full_raw 9 True) \<and>
   fst (get_frame scope_2 (True, full_raw 5 False)) = None \<and>
   prev_frame_seq_id (snd (get_frame scope_2 (True, full_raw 5 False))) = 5 \<and>
   file_written (snd (get_frame scope_2 (True, full_raw 5 False))) = [] \<and>
   (\<exists>stats frame self2.
      get_frame (snd (get_frame scope_2 (True, full_raw 5 False))) (True, full_raw 9 True)
        = (Some (stats, frame), self2) \<and>
      seq_id stats = 9 \<and> missing_frames_range stats = [6, 8])"
proof -
  have s: "sync_with_recording scope_2" by (simp add: scope_2_def)
  have f: "file_written scope_2 = []" by (simp add: scope_2_def)
  have r1: "\<not> recording_of scope_2 (full_raw 5 False)" by (simp add: full_raw_facts)
  have r2: "recording_of scope_2 (full_raw 9 True)" by (simp add: full_raw_facts)
  note t = suppressed_frame_tracked [OF valid_factor_2 configured_scope_2
      full_raw_facts(1) [of 5 False] s r1 full_raw_facts(1) [of 9 True] r2]
  have c: "counter_of scope_2 (full_raw 5 False) = 5" "counter_of scope_2 (full_raw 9 True) = 9"
    by (simp_all add: full_raw_facts)
  from t have "fst (get_frame scope_2 (True, full_raw 5 False)) = None \<and>
   prev_frame_seq_id (snd (get_frame scope_2 (True, full_raw 5 False))) = 5 \<and>
   file_written (snd (get_frame scope_2 (True, full_raw 5 False))) = [] \<and>
   (\<exists>stats frame self2.
      get_frame (snd (get_frame scope_2 (True, full_raw 5 False))) (True, full_raw 9 True)
        = (Some (stats, frame), self2) \<and>
      seq_id stats = 9 \<and> missing_frames_range stats = [6, 8])"
    unfolding c f by simp
  then show ?thesis
    using valid_factor_2 configured_scope_2 full_raw_facts(1) s r1 r2 by blast
qed

section \<open>Buffers of another length\<close>

lemma get_frame_view_fails:
  assumes "list_ex (\<lambda>row. odd (length row)) raw"
  shows "get_frame self (True, raw) = (None, self)"
  using assms by (simp add: get_frame_def view_uint16_def)

lemma get_frame_no_meta_row:
  assumes "0 \<le> header_row_with_meta self" "int (length raw) \<le> header_row_with_meta self"
  shows "get_frame self (True, raw) = (None, self)"
proof (cases "view_uint16 raw")
  case (Inl e)
  then show ?thesis by (simp add: get_frame_def)
next
  case (Inr frame16)
  then have "length frame16 = length raw"
    by (auto simp add: view_uint16_def split: if_splits)
  then have "np_getitem frame16 (header_row_with_meta self) = Inl IndexError"
    using assms by (intro np_getitem_out) simp_all
  with Inr show ?thesis by (simp add: get_frame_def Let_def)
qed

text \<open>
  C4, as the code has it. \<open>get_frame\<close> never compares the length of the buffer with
  \<open>frame_size_in_bytes\<close> and has no \<open>ShortBuffer\<close> error. Every exception is caught, so it
  does not crash. It returns \<open>(None, None)\<close>, the result of an empty read, and leaves the
  object unchanged when the 16-bit view cannot be formed (a row with an odd number of
  bytes) or the buffer has no row \<open>header_row_with_meta\<close>. When the meta row and its counter
  and flag samples can be read, the buffer is decoded and gated like any frame, whatever
  its length. When the meta row is too short for these samples, the tracker and the
  statistics are unchanged, and the buffer is suppressed with sync on and delivered with
  the statistics of the frame before with sync off.
\<close>

theorem get_frame_unchecked_length:
  "(list_ex (\<lambda>row. odd (length row)) raw \<longrightarrow> get_frame self (True, raw) = (None, self)) \<and>
   (0 \<le> header_row_with_meta self \<and> int (length raw) \<le> header_row_with_meta self \<longrightarrow>
      get_frame self (True, raw) = (None, self)) \<and>
   (view_uint16 raw = Inr frame16 \<and>
    np_getitem frame16 (header_row_with_meta self) = Inr row \<and>
    read_frame_fields self row = Inr (c, r) \<longrightarrow>
      (fst (get_frame self (True, raw)) = None \<longleftrightarrow> sync_with_recording self \<and> \<not> r) \<and>
      prev_frame_seq_id (snd (get_frame self (True, raw))) = c \<and>
      seq_id (frame_statistics (snd (get_frame self (True, raw)))) = c) \<and>
   (view_uint16 raw = Inr frame16 \<and>
    np_getitem frame16 (header_row_with_meta self) = Inr row \<and>
    read_frame_fields self row = Inl e \<longrightarrow>
      (fst (get_frame self (True, raw)) = None \<longleftrightarrow> sync_with_recording self) \<and>
      prev_frame_seq_id (snd (get_frame self (True, raw))) = prev_frame_seq_id self \<and>
      frame_statistics (snd (get_frame self (True, raw))) = frame_statistics self)"
proof -
  have ok: "(fst (get_frame self (True, raw)) = None \<longleftrightarrow> sync_with_recording self \<and> \<not> r) \<and>
      prev_frame_seq_id (snd (get_frame self (True, raw))) = c \<and>
      seq_id (frame_statistics (snd (get_frame self (True, raw)))) = c"
    if "view_uint16 raw = Inr frame16 \<and>
        np_getitem frame16 (header_row_with_meta self) = Inr row \<and>
        read_frame_fields self row = Inr (c, r)"
  proof -
    from that have a: "view_uint16 raw = Inr frame16"
      and b: "np_getitem frame16 (header_row_with_meta self) = Inr row"
      and c: "read_frame_fields self row = Inr (c, r)" by simp_all
    show ?thesis unfolding get_frame_decoded [OF a b c] by (simp add: Let_def)
  qed
  have bad: "(fst (get_frame self (True, raw)) = None \<longleftrightarrow> sync_with_recording self) \<and>
      prev_frame_seq_id (snd (get_frame self (True, raw))) = prev_frame_seq_id self \<and>
      frame_statistics (snd (get_frame self (True, raw))) = frame_statistics self"
    if "view_uint16 raw = Inr frame16 \<and>
        np_getitem frame16 (header_row_with_meta self) = Inr row \<and>
        read_frame_fields self row = Inl e"
    using that by (simp add: get_frame_def Let_def update_frame_stats_fail)
  from ok bad show ?thesis
    using get_frame_view_fails get_frame_no_meta_row by blast
qed

subsection \<open>A buffer of two rows\<close>

lemma short_frame16:
  "view_uint16 short_raw =
     Inr [replicate 640 0, encode_meta_row scope_2 (replicate 640 0) 7 True]"
proof -
  have "replicate 2 (replicate 640 (0 :: 16 word)) = [replicate 640 0, replicate 640 0]"
    by (simp add: numeral_2_eq_2)
  then show ?thesis
    unfolding short_raw_def view_encode_frame by (simp add: scope_2_def)
qed

lemma short_raw_length: "length (concat short_raw) = 2560"
proof -
  have "replicate 2 (replicate 640 (0 :: 16 word)) = [replicate 640 0, replicate 640 0]"
    by (simp add: numeral_2_eq_2)
  then show ?thesis
    by (simp add: short_raw_def encode_frame_def scope_2_def length_bytes_of_row
        length_encode_meta_row)
qed

lemma short_raw_row:
  "np_getitem [replicate 640 0, encode_meta_row scope_2 (replicate 640 0) 7 True]
     (header_row_with_meta scope_2)
   = Inr (encode_meta_row scope_2 (replicate 640 0) 7 True)"
  by (simp add: np_getitem_def scope_2_def)

lemma short_raw_fields:
  "read_frame_fields scope_2 (encode_meta_row scope_2 (replicate 640 0) 7 True) = Inr (7, True)"
  using read_scope_2_row [of 0 7 True] by (simp add: scope_2_def)

text \<open>
  The buffer \<open>short_raw\<close> has 2560 bytes where a frame has 1044480. \<open>get_frame\<close> returns no
  error for it: it delivers frame 7 with an empty pixel region, stores the new statistics
  and writes the empty frame to the file.
\<close>

theorem short_buffer_decoded:
  "int (length (concat short_raw)) \<noteq> frame_size_in_bytes scope_2 \<and>
   length (concat short_raw) = 2560 \<and>
   get_frame scope_2 (True, short_raw) =
     (Some (\<lparr> missing_frames_range = [], seq_id = 7, isxd_record = True \<rparr>, []),
      scope_2 \<lparr> frame_statistics := \<lparr> missing_frames_range = [], seq_id = 7, isxd_record = True \<rparr>,
                prev_frame_seq_id := 7, file_written := [[]] \<rparr>)"
proof -
  have "get_frame scope_2 (True, short_raw) =
     (Some (\<lparr> missing_frames_range = [], seq_id = 7, isxd_record = True \<rparr>, []),
      scope_2 \<lparr> frame_statistics := \<lparr> missing_frames_range = [], seq_id = 7, isxd_record = True \<rparr>,
                prev_frame_seq_id := 7, file_written := [[]] \<rparr>)"
    unfolding get_frame_decoded [OF short_frame16 short_raw_row short_raw_fields]
    by (simp add: Let_def scope_2_def py_slice_def py_slice_bound_def)
  then show ?thesis by (simp add: short_raw_length) (simp add: scope_2_def)
qed

theorem get_frame_unchecked_length_witness:
  "list_ex (\<lambda>row. odd (length row)) [[0 :: 8 word]] \<and>
   get_frame scope_2 (True, [[0]]) = (None, scope_2) \<and>
   0 \<le> header_row_with_meta scope_2 \<and>
   int (length [[0 :: 8 word, 0]]) \<le> header_row_with_meta scope_2 \<and>
   get_frame scope_2 (True, [[0, 0]]) = (None, scope_2) \<and>
   view_uint16 short_raw = Inr [replicate 640 0, encode_meta_row scope_2 (replicate 640 0) 7 True] \<and>
   np_getitem [replicate 640 0, encode_meta_row scope_2 (replicate 640 0) 7 True]
     (header_row_with_meta scope_2) = Inr (encode_meta_row scope_2 (replicate 640 0) 7 True) \<and>
   read_frame_fields scope_2 (encode_meta_row scope_2 (replicate 640 0) 7 True) = Inr (7, True) \<and>
   fst (get_frame scope_2 (True, short_raw)) \<noteq> None \<and>
   prev_frame_seq_id (snd (get_frame scope_2 (True, short_raw))) = 7 \<and>
   view_uint16 [[0, 0], [0, 0]] = Inr [[0], [0]] \<and>
   np_getitem [[0], [0 :: 16 word]] (header_row_with_meta scope_2) = Inr [0] \<and>
   read_frame_fields scope_2 [0] = Inl IndexError \<and>
   fst (get_frame scope_2 (True, [[0, 0], [0, 0]])) = None \<and>
   frame_statistics (snd (get_frame scope_2 (True, [[0, 0], [0, 0]]))) = frame_statistics scope_2"
proof -
  have h1: "list_ex (\<lambda>row. odd (length row)) [[0 :: 8 word]]" by simp
  have h2: "0 \<le> header_row_with_meta scope_2 \<and>
            int (length [[0 :: 8 word, 0]]) \<le> header_row_with_meta scope_2"
    by (simp add: scope_2_def)
  have h3: "view_uint16 [[0, 0], [0, 0]] = Inr [[0], [0]]"
    by (simp add: view_uint16_def)
  have h4: "np_getitem [[0], [0 :: 16 word]] (header_row_with_meta scope_2) = Inr [0]"
    by (simp add: np_getitem_def scope_2_def)
  have h5: "read_frame_fields scope_2 [0] = Inl IndexError"
    by (rule read_frame_fields_short) (simp_all add: scope_2_def)
  have s: "sync_with_recording scope_2" by (simp add: scope_2_def)
  from get_frame_unchecked_length [of "[[0]]" scope_2] h1
  have a: "get_frame scope_2 (True, [[0]]) = (None, scope_2)" by blast
  from get_frame_unchecked_length [of "[[0, 0]]" scope_2] h2
  have b: "get_frame scope_2 (True, [[0, 0]]) = (None, scope_2)" by blast
  from get_frame_unchecked_length [of short_raw scope_2
      "[replicate 640 0, encode_meta_row scope_2 (replicate 640 0) 7 True]"
      "encode_meta_row scope_2 (replicate 640 0) 7 True" 7 True]
    short_frame16 short_raw_row short_raw_fields
  have c: "fst (get_frame scope_2 (True, short_raw)) \<noteq> None"
    "prev_frame_seq_id (snd (get_frame scope_2 (True, short_raw))) = 7"
    by simp_all
  from get_frame_unchecked_length [of "[[0, 0], [0, 0]]" scope_2 "[[0], [0]]" "[0]" _ _ IndexError]
    h3 h4 h5 s
  have d: "fst (get_frame scope_2 (True, [[0, 0], [0, 0]])) = None"
    "frame_statistics (snd (get_frame scope_2 (True, [[0, 0], [0, 0]]))) = frame_statistics scope_2"
    by blast+
  from h1 h2 h3 h4 h5 a b c d short_frame16 short_raw_row short_raw_fields show ?thesis by blast
qed

end
